theory Spec2Isabelle
  imports Main
begin

section \<open>Python values\<close>

text \<open>
  The script \<^verbatim>\<open>optimize_data.py\<close> reads \<^verbatim>\<open>stops.txt\<close> with \<^verbatim>\<open>json.load\<close>, so every
  value it handles is one that a JSON document denotes: \<^verbatim>\<open>None\<close>, a \<^verbatim>\<open>bool\<close>, an
  \<^verbatim>\<open>int\<close> (unbounded), a \<^verbatim>\<open>float\<close>, a \<^verbatim>\<open>str\<close>, a \<^verbatim>\<open>list\<close> or a \<^verbatim>\<open>dict\<close> with
  \<^verbatim>\<open>str\<close> keys. A Python \<^verbatim>\<open>str\<close> is a sequence of code points, modelled as a list of
  naturals. A \<^verbatim>\<open>dict\<close> keeps its insertion order, so it is an association list.
  Floats are kept abstract (the type parameter \<open>'f\<close>).
  Bytes (file contents, console output, ASCII text) are HOL strings.
\<close>

type_synonym pystr = "nat list"

datatype 'f pyval =
    PyNone
  | PyBool bool
  | PyInt int
  | PyFloat 'f
  | PyStr pystr
  | PyList "'f pyval list"
  | PyDict "(pystr \<times> 'f pyval) list"

definition ascii :: "string \<Rightarrow> pystr" where
  "ascii s = map of_char s"

datatype exn =
    FileNotFoundError string
  | PermissionError string
  | NoSpaceError
  | LoadError string
  | KeyError string
  | TypeError string
  | AttributeError string
  | OverflowError string

text \<open>\<^verbatim>\<open>OSError\<close> and its subclasses (\<^verbatim>\<open>IOError\<close> is an alias of \<^verbatim>\<open>OSError\<close>).\<close>

fun is_OSError :: "exn \<Rightarrow> bool" where
  "is_OSError (FileNotFoundError _) = True"
| "is_OSError (PermissionError _) = True"
| "is_OSError NoSpaceError = True"
| "is_OSError _ = False"

text \<open>
  \<^verbatim>\<open>str(e)\<close>, which the handler prints. \<^verbatim>\<open>LoadError\<close> stands for whatever
  \<^verbatim>\<open>json.load\<close> raised and carries its message. \<^verbatim>\<open>str\<close> of a \<^verbatim>\<open>KeyError\<close> is the
  \<^verbatim>\<open>repr\<close> of the key; the keys this script looks up are plain identifiers, whose
  \<^verbatim>\<open>repr\<close> is the key between single quotes.
\<close>

fun str_exn :: "exn \<Rightarrow> string" where
  "str_exn (FileNotFoundError p) = ''[Errno 2] No such file or directory: '' @ [CHR 0x27] @ p @ [CHR 0x27]"
| "str_exn (PermissionError p) = ''[Errno 13] Permission denied: '' @ [CHR 0x27] @ p @ [CHR 0x27]"
| "str_exn NoSpaceError = ''[Errno 28] No space left on device''"
| "str_exn (LoadError m) = m"
| "str_exn (KeyError k) = [CHR 0x27] @ k @ [CHR 0x27]"
| "str_exn (TypeError m) = m"
| "str_exn (AttributeError m) = m"
| "str_exn (OverflowError m) = m"

fun type_name :: "'f pyval \<Rightarrow> string" where
  "type_name PyNone = ''NoneType''"
| "type_name (PyBool _) = ''bool''"
| "type_name (PyInt _) = ''int''"
| "type_name (PyFloat _) = ''float''"
| "type_name (PyStr _) = ''str''"
| "type_name (PyList _) = ''list''"
| "type_name (PyDict _) = ''dict''"

text \<open>\<^verbatim>\<open>v[k]\<close> for a string literal \<^verbatim>\<open>k\<close>.\<close>

fun subscript :: "'f pyval \<Rightarrow> string \<Rightarrow> exn + 'f pyval" where
  "subscript (PyDict kvs) k =
     (case map_of kvs (ascii k) of None \<Rightarrow> Inl (KeyError k) | Some v \<Rightarrow> Inr v)"
| "subscript (PyList _) k = Inl (TypeError ''list indices must be integers or slices, not str'')"
| "subscript (PyStr _) k = Inl (TypeError (''string indices must be integers, not '' @ [CHR 0x27] @ ''str'' @ [CHR 0x27]))"
| "subscript v k = Inl (TypeError ([CHR 0x27] @ type_name v @ [CHR 0x27] @ '' object is not subscriptable''))"

text \<open>\<^verbatim>\<open>v.get(k, d)\<close>: the default is used only when the key is absent.\<close>

fun get_default :: "'f pyval \<Rightarrow> string \<Rightarrow> 'f pyval \<Rightarrow> exn + 'f pyval" where
  "get_default (PyDict kvs) k d =
     (case map_of kvs (ascii k) of None \<Rightarrow> Inr d | Some v \<Rightarrow> Inr v)"
| "get_default v k d =
     Inl (AttributeError ([CHR 0x27] @ type_name v @ [CHR 0x27] @ '' object has no attribute '' @ [CHR 0x27] @ ''get'' @ [CHR 0x27]))"

text \<open>\<^verbatim>\<open>for stop in data\<close>: what iterating a value yields.\<close>

fun py_iter :: "'f pyval \<Rightarrow> exn + 'f pyval list" where
  "py_iter (PyList xs) = Inr xs"
| "py_iter (PyDict kvs) = Inr (map (\<lambda>kv. PyStr (fst kv)) kvs)"
| "py_iter (PyStr s) = Inr (map (\<lambda>c. PyStr [c]) s)"
| "py_iter v = Inl (TypeError ([CHR 0x27] @ type_name v @ [CHR 0x27] @ '' object is not iterable''))"

section \<open>The projection\<close>

text \<open>
  The dict display of lines 11 to 17: the five entries are evaluated in order, so the
  first failing lookup decides the exception.
\<close>

definition project :: "'f pyval \<Rightarrow> exn + 'f pyval" where
  "project stop =
     (case subscript stop ''stop_id'' of Inl e \<Rightarrow> Inl e | Inr i \<Rightarrow>
     (case subscript stop ''name'' of Inl e \<Rightarrow> Inl e | Inr n \<Rightarrow>
     (case subscript stop ''lat'' of Inl e \<Rightarrow> Inl e | Inr l \<Rightarrow>
     (case subscript stop ''lon'' of Inl e \<Rightarrow> Inl e | Inr o' \<Rightarrow>
     (case get_default stop ''locality'' (PyStr []) of Inl e \<Rightarrow> Inl e | Inr c \<Rightarrow>
        Inr (PyDict [(ascii ''i'', i), (ascii ''n'', n), (ascii ''l'', l),
                     (ascii ''o'', o'), (ascii ''c'', c)]))))))"

text \<open>The loop of lines 9 to 17, with \<^verbatim>\<open>lite_data\<close> as the accumulator.\<close>

fun project_loop :: "'f pyval list \<Rightarrow> 'f pyval list \<Rightarrow> exn + 'f pyval list" where
  "project_loop [] lite_data = Inr lite_data"
| "project_loop (stop # rest) lite_data =
     (case project stop of
        Inl e \<Rightarrow> Inl e
      | Inr r \<Rightarrow> project_loop rest (lite_data @ [r]))"

definition minimize :: "'f pyval \<Rightarrow> exn + 'f pyval list" where
  "minimize data =
     (case py_iter data of Inl e \<Rightarrow> Inl e | Inr stops \<Rightarrow> project_loop stops [])"

text \<open>A stop record with the four required fields.\<close>

definition required_keys :: "string list" where
  "required_keys = [''stop_id'', ''name'', ''lat'', ''lon'']"

text \<open>Lookup in a record, for stating what a field holds.\<close>

fun field :: "'f pyval \<Rightarrow> string \<Rightarrow> 'f pyval option" where
  "field (PyDict kvs) k = map_of kvs (ascii k)"
| "field _ k = None"

fun is_dict :: "'f pyval \<Rightarrow> bool" where
  "is_dict (PyDict _) = True"
| "is_dict _ = False"

definition has_required :: "'f pyval \<Rightarrow> bool" where
  "has_required stop = list_all (\<lambda>k. field stop k \<noteq> None) required_keys"

section \<open>Serialization\<close>

text \<open>
  \<^verbatim>\<open>json.dump(lite_data, f, separators=(',', ':'))\<close> with every other option at its
  default: \<^verbatim>\<open>ensure_ascii=True\<close>, \<^verbatim>\<open>allow_nan=True\<close>, no indentation, keys unsorted.
  The encoder is the one of the standard library (\<^verbatim>\<open>json/encoder.py\<close>); its output is
  ASCII text, hence a HOL string.
\<close>

definition hexdigit :: "nat \<Rightarrow> char" where
  "hexdigit d = ''0123456789abcdef'' ! (d mod 16)"

text \<open>\<^verbatim>\<open>'{0:04x}'.format(n)\<close> for \<open>n < 0x10000\<close>.\<close>

definition hex4 :: "nat \<Rightarrow> string" where
  "hex4 n = [hexdigit (n div 4096), hexdigit (n div 256), hexdigit (n div 16), hexdigit n]"

text \<open>
  One character of \<^verbatim>\<open>py_encode_basestring_ascii\<close>: the pattern
  \<^verbatim>\<open>([\\"]|[^\ -~])\<close> selects the backslash, the double quote and everything outside
  the printable ASCII range; \<^verbatim>\<open>ESCAPE_DCT\<close> has the short escapes, the rest is
  written as \<^verbatim>\<open>\uXXXX\<close>, a code point above the basic plane as a surrogate pair.
\<close>

definition escape_char :: "nat \<Rightarrow> string" where
  "escape_char n =
     (if n = 0x5C then [CHR 0x5C, CHR 0x5C]
      else if n = 0x22 then [CHR 0x5C, CHR 0x22]
      else if 0x20 \<le> n \<and> n \<le> 0x7E then [char_of n]
      else if n = 0x08 then [CHR 0x5C, CHR ''b'']
      else if n = 0x0C then [CHR 0x5C, CHR ''f'']
      else if n = 0x0A then [CHR 0x5C, CHR ''n'']
      else if n = 0x0D then [CHR 0x5C, CHR ''r'']
      else if n = 0x09 then [CHR 0x5C, CHR ''t'']
      else if n < 0x10000 then [CHR 0x5C, CHR ''u''] @ hex4 n
      else (let m = n - 0x10000;
                s1 = 0xD800 + (m div 1024) mod 1024;
                s2 = 0xDC00 + m mod 1024
            in [CHR 0x5C, CHR ''u''] @ hex4 s1 @ [CHR 0x5C, CHR ''u''] @ hex4 s2))"

definition encode_basestring_ascii :: "pystr \<Rightarrow> string" where
  "encode_basestring_ascii s = [CHR 0x22] @ concat (map escape_char s) @ [CHR 0x22]"

text \<open>\<^verbatim>\<open>int.__repr__\<close>: decimal digits, with a minus sign for a negative number.\<close>

definition digit :: "nat \<Rightarrow> char" where
  "digit d = char_of (48 + d mod 10)"

fun digits :: "nat \<Rightarrow> string" where
  "digits n = (if n < 10 then [digit n] else digits (n div 10) @ [digit (n mod 10)])"

definition intstr :: "int \<Rightarrow> string" where
  "intstr i = (if i < 0 then CHR ''-'' # digits (nat (- i)) else digits (nat i))"

fun join :: "string \<Rightarrow> string list \<Rightarrow> string" where
  "join sep [] = []"
| "join sep [x] = x"
| "join sep (x # y # ys) = x @ sep @ join sep (y # ys)"

text \<open>
  \<^verbatim>\<open>_make_iterencode\<close>, all chunks concatenated. \<open>floatstr\<close> is the encoder's
  \<^verbatim>\<open>floatstr\<close> (\<^verbatim>\<open>float.__repr__\<close>, and \<^verbatim>\<open>NaN\<close>, \<^verbatim>\<open>Infinity\<close>, \<^verbatim>\<open>-Infinity\<close> for the
  three special values, none of which raises since \<^verbatim>\<open>allow_nan\<close> is true).
\<close>

fun iterencode :: "string \<Rightarrow> string \<Rightarrow> ('f \<Rightarrow> string) \<Rightarrow> 'f pyval \<Rightarrow> string" where
  "iterencode isep ksep floatstr (PyStr s) = encode_basestring_ascii s"
| "iterencode isep ksep floatstr PyNone = ''null''"
| "iterencode isep ksep floatstr (PyBool b) = (if b then ''true'' else ''false'')"
| "iterencode isep ksep floatstr (PyInt i) = intstr i"
| "iterencode isep ksep floatstr (PyFloat x) = floatstr x"
| "iterencode isep ksep floatstr (PyList lst) =
     (if lst = [] then ''[]''
      else ''['' @ join isep (map (iterencode isep ksep floatstr) lst) @ '']'')"
| "iterencode isep ksep floatstr (PyDict dct) =
     (if dct = [] then ''{}''
      else ''{'' @ join isep (map (\<lambda>(key, value).
               encode_basestring_ascii key @ ksep @ iterencode isep ksep floatstr value) dct) @ ''}'')"

text \<open>The separators the script passes.\<close>

definition item_separator :: string where
  "item_separator = '',''"

definition key_separator :: string where
  "key_separator = '':''"

definition json_dumps :: "('f \<Rightarrow> string) \<Rightarrow> 'f pyval \<Rightarrow> string" where
  "json_dumps floatstr obj = iterencode item_separator key_separator floatstr obj"

section \<open>Deserialization\<close>

text \<open>
  \<^verbatim>\<open>json.load\<close> as CPython runs it (the scanner and \<^verbatim>\<open>scanstring\<close> of the \<^verbatim>\<open>_json\<close>
  accelerator, which \<^verbatim>\<open>json/decoder.py\<close> and \<^verbatim>\<open>json/scanner.py\<close> specify), with the
  default options: strict strings, \<^verbatim>\<open>int\<close> for integers. An input it rejects gives
  \<open>None\<close>. The conversion of a number literal to a float and the three float constants
  are parameters, as they are in the decoder (\<^verbatim>\<open>parse_float\<close>, \<^verbatim>\<open>parse_constant\<close>);
  \<open>float_str\<close> is the encoder's \<^verbatim>\<open>floatstr\<close>. The interpreter's limits (recursion
  depth, digits of an integer literal) are not modelled.
\<close>

record 'f float_ops =
  parse_float :: "string \<Rightarrow> 'f"
  parse_constant :: "string \<Rightarrow> 'f"
  float_str :: "'f \<Rightarrow> string"

definition is_ws :: "nat \<Rightarrow> bool" where
  "is_ws c = (c = 0x20 \<or> c = 0x09 \<or> c = 0x0A \<or> c = 0x0D)"

definition skip_ws :: "pystr \<Rightarrow> pystr" where
  "skip_ws s = dropWhile is_ws s"

definition is_digit :: "nat \<Rightarrow> bool" where
  "is_digit c = (0x30 \<le> c \<and> c \<le> 0x39)"

definition hexval :: "nat \<Rightarrow> nat option" where
  "hexval c =
     (if 0x30 \<le> c \<and> c \<le> 0x39 then Some (c - 0x30)
      else if 0x61 \<le> c \<and> c \<le> 0x66 then Some (c - 0x61 + 10)
      else if 0x41 \<le> c \<and> c \<le> 0x46 then Some (c - 0x41 + 10)
      else None)"

definition decode_uXXXX :: "pystr \<Rightarrow> nat option" where
  "decode_uXXXX s =
     (case map hexval (take 4 s) of
        [Some a, Some b, Some c, Some d] \<Rightarrow> Some (((a * 16 + b) * 16 + c) * 16 + d)
      | _ \<Rightarrow> None)"

definition backslash :: "nat \<Rightarrow> nat option" where
  "backslash esc =
     (if esc = 0x22 then Some 0x22
      else if esc = 0x5C then Some 0x5C
      else if esc = 0x2F then Some 0x2F
      else if esc = 0x62 then Some 0x08
      else if esc = 0x66 then Some 0x0C
      else if esc = 0x6E then Some 0x0A
      else if esc = 0x72 then Some 0x0D
      else if esc = 0x74 then Some 0x09
      else None)"

definition prepend :: "nat \<Rightarrow> (pystr \<times> pystr) option \<Rightarrow> (pystr \<times> pystr) option" where
  "prepend c r = map_option (\<lambda>(chars, rest). (c # chars, rest)) r"

fun scanstring :: "pystr \<Rightarrow> (pystr \<times> pystr) option" where
  "scanstring [] = None"
| "scanstring (c # s) =
     (if c = 0x22 then Some ([], s)
      else if c = 0x5C then
        (case s of
           [] \<Rightarrow> None
         | esc # s1 \<Rightarrow>
             if esc \<noteq> 0x75 then
               (case backslash esc of None \<Rightarrow> None | Some ch \<Rightarrow> prepend ch (scanstring s1))
             else
               (case decode_uXXXX s1 of
                  None \<Rightarrow> None
                | Some uni \<Rightarrow>
                    if 0xD800 \<le> uni \<and> uni \<le> 0xDBFF \<and> take 2 (drop 4 s1) = [0x5C, 0x75] then
                      (case decode_uXXXX (drop 6 s1) of
                         None \<Rightarrow> None
                       | Some uni2 \<Rightarrow>
                           if 0xDC00 \<le> uni2 \<and> uni2 \<le> 0xDFFF
                           then prepend (0x10000 + ((uni - 0xD800) * 1024 + (uni2 - 0xDC00)))
                                  (scanstring (drop 10 s1))
                           else prepend uni (scanstring (drop 4 s1)))
                    else prepend uni (scanstring (drop 4 s1))))
      else if c < 0x20 then None
      else prepend c (scanstring s))"


text \<open>The number pattern of the scanner: sign, integer part, fraction, exponent.\<close>

definition match_integer :: "pystr \<Rightarrow> (pystr \<times> pystr) option" where
  "match_integer s =
     (let sign = (if take 1 s = [0x2D] then [0x2D] else []);
          s1 = drop (length sign) s
      in case s1 of
           [] \<Rightarrow> None
         | c # t \<Rightarrow>
             if c = 0x30 then Some (sign @ [c], t)
             else if 0x31 \<le> c \<and> c \<le> 0x39
             then Some (sign @ c # takeWhile is_digit t, dropWhile is_digit t)
             else None)"

definition match_frac :: "pystr \<Rightarrow> pystr \<times> pystr" where
  "match_frac s =
     (case s of
        c # d # t \<Rightarrow>
          if c = 0x2E \<and> is_digit d
          then (c # d # takeWhile is_digit t, dropWhile is_digit t)
          else ([], s)
      | _ \<Rightarrow> ([], s))"

definition match_exp :: "pystr \<Rightarrow> pystr \<times> pystr" where
  "match_exp s =
     (case s of
        [] \<Rightarrow> ([], s)
      | c # t \<Rightarrow>
          if c = 0x65 \<or> c = 0x45 then
            (let sign = (if take 1 t = [0x2B] \<or> take 1 t = [0x2D] then take 1 t else []);
                 t1 = drop (length sign) t;
                 ds = takeWhile is_digit t1
             in if ds = [] then ([], s) else (c # sign @ ds, dropWhile is_digit t1))
          else ([], s))"

text \<open>\<^verbatim>\<open>int\<close> of an optional minus sign followed by decimal digits.\<close>

definition digits_value :: "pystr \<Rightarrow> nat" where
  "digits_value ds = foldl (\<lambda>acc c. acc * 10 + (c - 0x30)) 0 ds"

definition parse_int :: "pystr \<Rightarrow> int" where
  "parse_int s =
     (if take 1 s = [0x2D] then - int (digits_value (drop 1 s)) else int (digits_value s))"

definition to_bytes :: "pystr \<Rightarrow> string" where
  "to_bytes s = map char_of s"

definition match_number :: "'f float_ops \<Rightarrow> pystr \<Rightarrow> ('f pyval \<times> pystr) option" where
  "match_number ops s =
     (case match_integer s of
        None \<Rightarrow> None
      | Some (integer, s1) \<Rightarrow>
          (let (frac, s2) = match_frac s1;
               (exp, s3) = match_exp s2
           in if frac \<noteq> [] \<or> exp \<noteq> []
              then Some (PyFloat (parse_float ops (to_bytes (integer @ frac @ exp))), s3)
              else Some (PyInt (parse_int integer), s3)))"

text \<open>\<^verbatim>\<open>dict(pairs)\<close>: a later pair with the same key replaces the value in place.\<close>

fun dict_set :: "(pystr \<times> 'v) list \<Rightarrow> pystr \<Rightarrow> 'v \<Rightarrow> (pystr \<times> 'v) list" where
  "dict_set [] k v = [(k, v)]"
| "dict_set ((k', v') # d) k v = (if k' = k then (k, v) # d else (k', v') # dict_set d k v)"

definition dict_of_pairs :: "(pystr \<times> 'v) list \<Rightarrow> (pystr \<times> 'v) list" where
  "dict_of_pairs pairs = foldl (\<lambda>d (k, v). dict_set d k v) [] pairs"

definition starts_with :: "pystr \<Rightarrow> string \<Rightarrow> bool" where
  "starts_with s lit = (take (length lit) s = ascii lit)"

text \<open>
  The scanner. \<open>scan_once\<close> reads one value at the head of the text and returns it with
  the rest of the text; \<open>json_array\<close> and \<open>json_object\<close> are the loops of \<^verbatim>\<open>JSONArray\<close>
  and \<^verbatim>\<open>JSONObject\<close>, entered after the first element or key has been located. The
  first argument bounds the number of calls.
\<close>

fun scan_once :: "nat \<Rightarrow> 'f float_ops \<Rightarrow> pystr \<Rightarrow> ('f pyval \<times> pystr) option"
and json_array :: "nat \<Rightarrow> 'f float_ops \<Rightarrow> pystr \<Rightarrow> 'f pyval list \<Rightarrow> ('f pyval \<times> pystr) option"
and json_object :: "nat \<Rightarrow> 'f float_ops \<Rightarrow> pystr \<Rightarrow> (pystr \<times> 'f pyval) list \<Rightarrow> ('f pyval \<times> pystr) option"
where
  "scan_once 0 ops s = None"
| "scan_once (Suc n) ops s =
     (case s of
        [] \<Rightarrow> None
      | nextchar # t \<Rightarrow>
          if nextchar = 0x22 then
            map_option (\<lambda>(chars, rest). (PyStr chars, rest)) (scanstring t)
          else if nextchar = 0x7B then
            (case skip_ws t of
               [] \<Rightarrow> None
             | c # t1 \<Rightarrow>
                 if c = 0x7D then Some (PyDict [], t1)
                 else if c = 0x22 then json_object n ops t1 []
                 else None)
          else if nextchar = 0x5B then
            (case skip_ws t of
               [] \<Rightarrow> None
             | c # t1 \<Rightarrow>
                 if c = 0x5D then Some (PyList [], t1)
                 else json_array n ops (c # t1) [])
          else if starts_with s ''null'' then Some (PyNone, drop 4 s)
          else if starts_with s ''true'' then Some (PyBool True, drop 4 s)
          else if starts_with s ''false'' then Some (PyBool False, drop 5 s)
          else
            (case match_number ops s of
               Some r \<Rightarrow> Some r
             | None \<Rightarrow>
                 if starts_with s ''NaN'' then Some (PyFloat (parse_constant ops ''NaN''), drop 3 s)
                 else if starts_with s ''Infinity''
                 then Some (PyFloat (parse_constant ops ''Infinity''), drop 8 s)
                 else if starts_with s ''-Infinity''
                 then Some (PyFloat (parse_constant ops ''-Infinity''), drop 9 s)
                 else None))"
| "json_array 0 ops s values = None"
| "json_array (Suc n) ops s values =
     (case scan_once n ops s of
        None \<Rightarrow> None
      | Some (v, rest) \<Rightarrow>
          (case skip_ws rest of
             [] \<Rightarrow> None
           | c # t \<Rightarrow>
               if c = 0x5D then Some (PyList (values @ [v]), t)
               else if c = 0x2C then json_array n ops (skip_ws t) (values @ [v])
               else None))"
| "json_object 0 ops s pairs = None"
| "json_object (Suc n) ops s pairs =
     (case scanstring s of
        None \<Rightarrow> None
      | Some (key, s1) \<Rightarrow>
          (case skip_ws s1 of
             [] \<Rightarrow> None
           | c # s2 \<Rightarrow>
               if c \<noteq> 0x3A then None
               else
                 (case scan_once n ops (skip_ws s2) of
                    None \<Rightarrow> None
                  | Some (v, rest) \<Rightarrow>
                      (case skip_ws rest of
                         [] \<Rightarrow> None
                       | c' # t \<Rightarrow>
                           if c' = 0x7D then Some (PyDict (dict_of_pairs (pairs @ [(key, v)])), t)
                           else if c' = 0x2C then
                             (case skip_ws t of
                                [] \<Rightarrow> None
                              | q # t1 \<Rightarrow>
                                  if q = 0x22 then json_object n ops t1 (pairs @ [(key, v)])
                                  else None)
                           else None))))"

text \<open>
  \<^verbatim>\<open>json.loads\<close>: no byte order mark, one value between optional white space, nothing
  after it.
\<close>

definition json_loads :: "'f float_ops \<Rightarrow> pystr \<Rightarrow> 'f pyval option" where
  "json_loads ops s =
     (if take 1 s = [0xFEFF] then None
      else
        (case scan_once (length s) ops (skip_ws s) of
           None \<Rightarrow> None
         | Some (obj, rest) \<Rightarrow> if skip_ws rest = [] then Some obj else None))"

text \<open>
  Reading a file opened with \<^verbatim>\<open>encoding='utf-8'\<close>: strict UTF-8 decoding (no overlong
  form, no surrogate, nothing above \<^verbatim>\<open>U+10FFFF\<close>), then the translation of line ends
  that text mode applies.
\<close>

definition is_cont :: "nat \<Rightarrow> bool" where
  "is_cont b = (0x80 \<le> b \<and> b \<le> 0xBF)"

fun utf8_decode :: "nat list \<Rightarrow> pystr option" where
  "utf8_decode [] = Some []"
| "utf8_decode (b0 # bs) =
     (if b0 < 0x80 then map_option ((#) b0) (utf8_decode bs)
      else if 0xC0 \<le> b0 \<and> b0 \<le> 0xDF then
        (case bs of
           b1 # r \<Rightarrow>
             (let cp = (b0 - 0xC0) * 64 + (b1 - 0x80)
              in if is_cont b1 \<and> 0x80 \<le> cp then map_option ((#) cp) (utf8_decode r) else None)
         | _ \<Rightarrow> None)
      else if 0xE0 \<le> b0 \<and> b0 \<le> 0xEF then
        (case bs of
           b1 # b2 # r \<Rightarrow>
             (let cp = ((b0 - 0xE0) * 64 + (b1 - 0x80)) * 64 + (b2 - 0x80)
              in if is_cont b1 \<and> is_cont b2 \<and> 0x800 \<le> cp \<and> \<not> (0xD800 \<le> cp \<and> cp \<le> 0xDFFF)
                 then map_option ((#) cp) (utf8_decode r) else None)
         | _ \<Rightarrow> None)
      else if 0xF0 \<le> b0 \<and> b0 \<le> 0xF7 then
        (case bs of
           b1 # b2 # b3 # r \<Rightarrow>
             (let cp = (((b0 - 0xF0) * 64 + (b1 - 0x80)) * 64 + (b2 - 0x80)) * 64 + (b3 - 0x80)
              in if is_cont b1 \<and> is_cont b2 \<and> is_cont b3 \<and> 0x10000 \<le> cp \<and> cp \<le> 0x10FFFF
                 then map_option ((#) cp) (utf8_decode r) else None)
         | _ \<Rightarrow> None)
      else None)"

fun universal_newlines :: "pystr \<Rightarrow> pystr" where
  "universal_newlines [] = []"
| "universal_newlines [c] = [if c = 0x0D then 0x0A else c]"
| "universal_newlines (c # d # s) =
     (if c = 0x0D \<and> d = 0x0A then 0x0A # universal_newlines s
      else if c = 0x0D then 0x0A # universal_newlines (d # s)
      else c # universal_newlines (d # s))"

definition read_text :: "string \<Rightarrow> pystr option" where
  "read_text bytes = map_option universal_newlines (utf8_decode (map of_char bytes))"

text \<open>\<^verbatim>\<open>json.load\<close> on the bytes of a file; \<open>None\<close> when it raises.\<close>

definition json_load :: "'f float_ops \<Rightarrow> string \<Rightarrow> 'f pyval option" where
  "json_load ops bytes =
     (case read_text bytes of None \<Rightarrow> None | Some s \<Rightarrow> json_loads ops s)"

text \<open>
  \<^verbatim>\<open>json.load\<close> as the script calls it: on an input it rejects it raises, with the
  message \<open>msg\<close> gives for these bytes.
\<close>

definition load_json :: "'f float_ops \<Rightarrow> (string \<Rightarrow> string) \<Rightarrow> string \<Rightarrow> exn + 'f pyval" where
  "load_json ops msg bytes =
     (case json_load ops bytes of None \<Rightarrow> Inl (LoadError (msg bytes)) | Some v \<Rightarrow> Inr v)"

section \<open>Files\<close>

text \<open>
  The file system as the script sees it: a path names a regular file with its bytes and
  its permissions, or nothing. \<open>free_space\<close> is the number of bytes the device still
  accepts for the output file (\<open>None\<close>: no limit); a write beyond it stores what fits and
  raises \<^verbatim>\<open>OSError\<close> with \<^verbatim>\<open>ENOSPC\<close>.
\<close>

record fnode =
  content :: string
  readable :: bool
  writable :: bool

record world =
  files :: "string \<Rightarrow> fnode option"
  free_space :: "nat option"

text \<open>\<^verbatim>\<open>open(p, 'r')\<close> followed by reading the whole file.\<close>

definition open_r :: "world \<Rightarrow> string \<Rightarrow> exn + string" where
  "open_r w p =
     (case files w p of
        None \<Rightarrow> Inl (FileNotFoundError p)
      | Some n \<Rightarrow> if readable n then Inr (content n) else Inl (PermissionError p))"

text \<open>\<^verbatim>\<open>open(p, 'w')\<close>: creates the file, or truncates it to length zero.\<close>

definition open_w :: "world \<Rightarrow> string \<Rightarrow> exn + world" where
  "open_w w p =
     (case files w p of
        None \<Rightarrow> Inr (w\<lparr>files := (files w)(p \<mapsto> \<lparr>content = [], readable = True, writable = True\<rparr>)\<rparr>)
      | Some n \<Rightarrow>
          if writable n then Inr (w\<lparr>files := (files w)(p \<mapsto> n\<lparr>content := []\<rparr>)\<rparr>)
          else Inl (PermissionError p))"

text \<open>Writing \<open>bs\<close> to the file opened at \<open>p\<close> and closing it.\<close>

definition append_bytes :: "world \<Rightarrow> string \<Rightarrow> string \<Rightarrow> world" where
  "append_bytes w p bs =
     w\<lparr>files := (files w)(p := map_option (\<lambda>n. n\<lparr>content := content n @ bs\<rparr>) (files w p))\<rparr>"

definition write_close :: "world \<Rightarrow> string \<Rightarrow> string \<Rightarrow> world \<times> exn option" where
  "write_close w p bs =
     (case free_space w of
        None \<Rightarrow> (append_bytes w p bs, None)
      | Some k \<Rightarrow>
          if length bs \<le> k
          then ((append_bytes w p bs)\<lparr>free_space := Some (k - length bs)\<rparr>, None)
          else ((append_bytes w p (take k bs))\<lparr>free_space := Some 0\<rparr>, Some NoSpaceError))"

text \<open>\<^verbatim>\<open>os.path.getsize(p)\<close>.\<close>

definition getsize :: "world \<Rightarrow> string \<Rightarrow> exn + nat" where
  "getsize w p =
     (case files w p of
        None \<Rightarrow> Inl (FileNotFoundError p)
      | Some n \<Rightarrow> Inr (length (content n)))"

section \<open>The size report\<close>

text \<open>
  \<^verbatim>\<open>size/1024/1024\<close> is float arithmetic on an integer. The first division is Python's
  true division of two integers, which returns the double nearest to the exact quotient
  (ties to even) and raises \<^verbatim>\<open>OverflowError\<close> beyond the range of a double; the second
  divides a double by a power of two, which is exact. The result is therefore
  \<open>sig53 size / 2^20\<close>, where \<open>sig53\<close> rounds to 53 significant bits; the model keeps
  the numerator, a natural number.
\<close>

fun bit_length :: "nat \<Rightarrow> nat" where
  "bit_length n = (if n = 0 then 0 else Suc (bit_length (n div 2)))"

text \<open>\<open>p / q\<close> rounded to the nearest integer, ties to the even one.\<close>

definition round_half_even :: "nat \<Rightarrow> nat \<Rightarrow> nat" where
  "round_half_even p q =
     (let d = p div q; r = p mod q
      in if 2 * r < q then d
         else if q < 2 * r then d + 1
         else if even d then d else d + 1)"

definition sig53 :: "nat \<Rightarrow> nat" where
  "sig53 n =
     (if bit_length n \<le> 53 then n
      else (let u = 2 ^ (bit_length n - 53) in round_half_even n u * u))"

definition megabytes :: "nat \<Rightarrow> exn + nat" where
  "megabytes nbytes =
     (if 2 ^ 1034 \<le> sig53 nbytes
      then Inl (OverflowError ''integer division result too large for a float'')
      else Inr (sig53 nbytes))"

text \<open>
  \<^verbatim>\<open>f"{x:.2f}"\<close> for the double \<open>x = m / 2^20\<close>: the exact value rounded to hundredths
  (ties to even), written with at least one digit before the point and two after it.
\<close>

definition format_2f :: "nat \<Rightarrow> string" where
  "format_2f m =
     (let h = round_half_even (m * 100) (2 ^ 20)
      in digits (h div 100) @ ''.'' @ [digit (h mod 100 div 10), digit (h mod 10)])"

section \<open>The script\<close>

definition input_path :: string where
  "input_path = ''stops.txt''"

definition output_path :: string where
  "output_path = ''stops_lite.json''"

text \<open>
  The body of the \<^verbatim>\<open>try\<close> block. It returns the file system it leaves, the lines it
  printed, and the exception that ended it, if any. \<open>load\<close> is \<^verbatim>\<open>json.load\<close> on the
  bytes of the input file (UTF-8 decoding and parsing, either of which may raise).
\<close>

definition report :: "world \<Rightarrow> world \<times> string list \<times> exn option" where
  "report w =
     (case getsize w input_path of Inl e \<Rightarrow> (w, [], Some e) | Inr s1 \<Rightarrow>
     (case megabytes s1 of Inl e \<Rightarrow> (w, [], Some e) | Inr m1 \<Rightarrow>
     (let line1 = ''Optimization complete. Original size: '' @ format_2f m1 @ ''MB'' in
     (case getsize w output_path of Inl e \<Rightarrow> (w, [line1], Some e) | Inr s2 \<Rightarrow>
     (case megabytes s2 of Inl e \<Rightarrow> (w, [line1], Some e) | Inr m2 \<Rightarrow>
        (w, [line1, ''New size: '' @ format_2f m2 @ ''MB''], None))))))"

definition try_body ::
  "(string \<Rightarrow> exn + 'f pyval) \<Rightarrow> ('f \<Rightarrow> string) \<Rightarrow> world \<Rightarrow> world \<times> string list \<times> exn option" where
  "try_body load floatstr w =
     (case open_r w input_path of Inl e \<Rightarrow> (w, [], Some e) | Inr bytes \<Rightarrow>
     (case load bytes of Inl e \<Rightarrow> (w, [], Some e) | Inr data \<Rightarrow>
     (case minimize data of Inl e \<Rightarrow> (w, [], Some e) | Inr lite_data \<Rightarrow>
     (case open_w w output_path of Inl e \<Rightarrow> (w, [], Some e) | Inr w1 \<Rightarrow>
     (case write_close w1 output_path (json_dumps floatstr (PyList lite_data)) of
        (w2, Some e) \<Rightarrow> (w2, [], Some e)
      | (w2, None) \<Rightarrow> report w2)))))"

text \<open>The whole script: the handler prints one line for the exception it caught.\<close>

definition run ::
  "(string \<Rightarrow> exn + 'f pyval) \<Rightarrow> ('f \<Rightarrow> string) \<Rightarrow> world \<Rightarrow> world \<times> string list" where
  "run load floatstr w =
     (case try_body load floatstr w of
        (w', out, None) \<Rightarrow> (w', out)
      | (w', out, Some e) \<Rightarrow> (w', out @ [''Error: '' @ str_exn e]))"

section \<open>Properties of the projection\<close>

lemma project_has_required:
  assumes "has_required stop"
  shows "\<exists>i n l o'. field stop ''stop_id'' = Some i \<and> field stop ''name'' = Some n
     \<and> field stop ''lat'' = Some l \<and> field stop ''lon'' = Some o'
     \<and> project stop = Inr (PyDict [(ascii ''i'', i), (ascii ''n'', n), (ascii ''l'', l),
           (ascii ''o'', o'),
           (ascii ''c'', case field stop ''locality'' of None \<Rightarrow> PyStr [] | Some v \<Rightarrow> v)])"
  using assms
  by (cases stop)
     (auto simp: has_required_def required_keys_def project_def split: option.splits)

lemma project_loop_appends:
  "project_loop stops acc = Inr lite \<Longrightarrow>
     \<exists>rs. lite = acc @ rs \<and> length rs = length stops
        \<and> (\<forall>k < length stops. project (stops ! k) = Inr (rs ! k))"
proof (induction stops arbitrary: acc lite)
  case Nil
  then show ?case by simp
next
  case (Cons stop rest)
  from Cons.prems obtain r where r: "project stop = Inr r"
    and rest: "project_loop rest (acc @ [r]) = Inr lite"
    by (auto split: sum.splits)
  from Cons.IH [OF rest] obtain rs where rs: "lite = (acc @ [r]) @ rs" "length rs = length rest"
    "\<forall>k < length rest. project (rest ! k) = Inr (rs ! k)" by blast
  have "\<forall>k < length (stop # rest). project ((stop # rest) ! k) = Inr ((r # rs) ! k)"
    using r rs(3) by (auto simp: nth_Cons split: nat.splits)
  with rs show ?case by (intro exI [of _ "r # rs"]) simp
qed

lemma project_loop_total:
  "\<forall>stop \<in> set stops. \<exists>r. project stop = Inr r \<Longrightarrow> \<exists>lite. project_loop stops acc = Inr lite"
  by (induction stops arbitrary: acc) (auto split: sum.splits)

text \<open>
  C1. For a record that has the four required fields, the projection succeeds and the
  values of its output at \<^verbatim>\<open>i\<close>, \<^verbatim>\<open>n\<close>, \<^verbatim>\<open>l\<close>, \<^verbatim>\<open>o\<close> are the values of the input at
  \<^verbatim>\<open>stop_id\<close>, \<^verbatim>\<open>name\<close>, \<^verbatim>\<open>lat\<close>, \<^verbatim>\<open>lon\<close>, unchanged.
\<close>

theorem project_renames_required_fields:
  assumes "has_required stop"
  shows "\<exists>out. project stop = Inr out
     \<and> field out ''i'' = field stop ''stop_id'' \<and> field out ''n'' = field stop ''name''
     \<and> field out ''l'' = field stop ''lat'' \<and> field out ''o'' = field stop ''lon''
     \<and> field out ''i'' \<noteq> None \<and> field out ''n'' \<noteq> None
     \<and> field out ''l'' \<noteq> None \<and> field out ''o'' \<noteq> None"
proof -
  from project_has_required [OF assms] obtain i n l o' where
    "field stop ''stop_id'' = Some i" "field stop ''name'' = Some n"
    "field stop ''lat'' = Some l" "field stop ''lon'' = Some o'"
    "project stop = Inr (PyDict [(ascii ''i'', i), (ascii ''n'', n), (ascii ''l'', l),
           (ascii ''o'', o'),
           (ascii ''c'', case field stop ''locality'' of None \<Rightarrow> PyStr [] | Some v \<Rightarrow> v)])"
    by blast
  then show ?thesis by (simp add: ascii_def)
qed

theorem project_renames_required_fields_witness:
  "has_required (PyDict [(ascii ''stop_id'', PyStr (ascii ''42'')),
       (ascii ''name'', PyStr (ascii ''Main St'')),
       (ascii ''lat'', PyFloat ''40.1''), (ascii ''lon'', PyFloat ''-73.9''),
       (ascii ''locality'', PyStr (ascii ''Springfield''))])
   \<and> (\<exists>out. project (PyDict [(ascii ''stop_id'', PyStr (ascii ''42'')),
       (ascii ''name'', PyStr (ascii ''Main St'')),
       (ascii ''lat'', PyFloat ''40.1''), (ascii ''lon'', PyFloat ''-73.9''),
       (ascii ''locality'', PyStr (ascii ''Springfield''))]) = Inr out
     \<and> field out ''i'' = Some (PyStr (ascii ''42''))
     \<and> field out ''n'' = Some (PyStr (ascii ''Main St''))
     \<and> field out ''l'' = Some (PyFloat ''40.1'')
     \<and> field out ''o'' = Some (PyFloat ''-73.9''))"
proof -
  let ?stop = "PyDict [(ascii ''stop_id'', PyStr (ascii ''42'')),
       (ascii ''name'', PyStr (ascii ''Main St'')),
       (ascii ''lat'', PyFloat ''40.1''), (ascii ''lon'', PyFloat ''-73.9''),
       (ascii ''locality'', PyStr (ascii ''Springfield''))] :: string pyval"
  have h: "has_required ?stop"
    by (simp add: has_required_def required_keys_def ascii_def)
  from project_renames_required_fields [OF h] obtain out where
    "project ?stop = Inr out" "field out ''i'' = field ?stop ''stop_id''"
    "field out ''n'' = field ?stop ''name''" "field out ''l'' = field ?stop ''lat''"
    "field out ''o'' = field ?stop ''lon''" by blast
  then have "project ?stop = Inr out \<and> field out ''i'' = Some (PyStr (ascii ''42''))
     \<and> field out ''n'' = Some (PyStr (ascii ''Main St''))
     \<and> field out ''l'' = Some (PyFloat ''40.1'')
     \<and> field out ''o'' = Some (PyFloat ''-73.9'')"
    by (simp add: ascii_def)
  with h show ?thesis by blast
qed

text \<open>
  C2. For a sequence of \<open>N\<close> records that all have the required fields, the loop
  produces \<open>N\<close> records, and the \<open>k\<close>-th of them is the projection of the \<open>k\<close>-th input
  record.
\<close>

theorem minimize_keeps_length_and_order:
  assumes "\<forall>stop \<in> set stops. has_required stop"
  shows "\<exists>lite. minimize (PyList stops) = Inr lite \<and> length lite = length stops
     \<and> (\<forall>k < length stops. project (stops ! k) = Inr (lite ! k))"
proof -
  have "\<forall>stop \<in> set stops. \<exists>r. project stop = Inr r"
    using assms project_has_required by blast
  then obtain lite where lite: "project_loop stops [] = Inr lite"
    using project_loop_total by blast
  from project_loop_appends [OF lite] show ?thesis
    using lite by (auto simp: minimize_def)
qed

theorem minimize_keeps_length_and_order_witness:
  "list_all has_required
                 [PyDict [(ascii ''stop_id'', PyInt 1), (ascii ''name'', PyStr (ascii ''A'')),
                          (ascii ''lat'', PyInt 38), (ascii ''lon'', PyInt (- 9))],
                  PyDict [(ascii ''stop_id'', PyInt 2), (ascii ''name'', PyStr (ascii ''B'')),
                          (ascii ''lat'', PyInt 39), (ascii ''lon'', PyInt (- 8)),
                          (ascii ''locality'', PyStr (ascii ''Lisboa''))]
                   :: string pyval]
   \<and> minimize (PyList [PyDict [(ascii ''stop_id'', PyInt 1), (ascii ''name'', PyStr (ascii ''A'')),
                          (ascii ''lat'', PyInt 38), (ascii ''lon'', PyInt (- 9))],
                  PyDict [(ascii ''stop_id'', PyInt 2), (ascii ''name'', PyStr (ascii ''B'')),
                          (ascii ''lat'', PyInt 39), (ascii ''lon'', PyInt (- 8)),
                          (ascii ''locality'', PyStr (ascii ''Lisboa''))]
                   :: string pyval])
     = Inr [PyDict [(ascii ''i'', PyInt 1), (ascii ''n'', PyStr (ascii ''A'')),
                    (ascii ''l'', PyInt 38), (ascii ''o'', PyInt (- 9)), (ascii ''c'', PyStr [])],
            PyDict [(ascii ''i'', PyInt 2), (ascii ''n'', PyStr (ascii ''B'')),
                    (ascii ''l'', PyInt 39), (ascii ''o'', PyInt (- 8)),
                    (ascii ''c'', PyStr (ascii ''Lisboa''))]]"
proof -
  let ?a = "PyDict [(ascii ''stop_id'', PyInt 1), (ascii ''name'', PyStr (ascii ''A'')),
                    (ascii ''lat'', PyInt 38), (ascii ''lon'', PyInt (- 9))] :: string pyval"
  let ?b = "PyDict [(ascii ''stop_id'', PyInt 2), (ascii ''name'', PyStr (ascii ''B'')),
                    (ascii ''lat'', PyInt 39), (ascii ''lon'', PyInt (- 8)),
                    (ascii ''locality'', PyStr (ascii ''Lisboa''))] :: string pyval"
  have h: "\<forall>stop \<in> set [?a, ?b]. has_required stop"
    by (simp add: has_required_def required_keys_def ascii_def)
  from minimize_keeps_length_and_order [OF h] obtain lite where
    lite: "minimize (PyList [?a, ?b]) = Inr lite" "length lite = 2"
      "\<forall>k < 2. project ([?a, ?b] ! k) = Inr (lite ! k)" by auto
  from lite(3) have "project ?a = Inr (lite ! 0)" "project ?b = Inr (lite ! 1)"
    by (auto dest: spec [of _ 0] spec [of _ 1])
  then have "lite ! 0 = PyDict [(ascii ''i'', PyInt 1), (ascii ''n'', PyStr (ascii ''A'')),
                    (ascii ''l'', PyInt 38), (ascii ''o'', PyInt (- 9)), (ascii ''c'', PyStr [])]"
    "lite ! 1 = PyDict [(ascii ''i'', PyInt 2), (ascii ''n'', PyStr (ascii ''B'')),
                    (ascii ''l'', PyInt 39), (ascii ''o'', PyInt (- 8)),
                    (ascii ''c'', PyStr (ascii ''Lisboa''))]"
    by (simp_all add: project_def ascii_def)
  with lite(2) have "lite = [PyDict [(ascii ''i'', PyInt 1), (ascii ''n'', PyStr (ascii ''A'')),
                    (ascii ''l'', PyInt 38), (ascii ''o'', PyInt (- 9)), (ascii ''c'', PyStr [])],
            PyDict [(ascii ''i'', PyInt 2), (ascii ''n'', PyStr (ascii ''B'')),
                    (ascii ''l'', PyInt 39), (ascii ''o'', PyInt (- 8)),
                    (ascii ''c'', PyStr (ascii ''Lisboa''))]]"
    by (cases lite; cases "tl lite") auto
  with lite(1) h show ?thesis by (simp add: list_all_iff)
qed

text \<open>
  C3, as the code has it. \<^verbatim>\<open>stop.get('locality', '')\<close> uses the default only when the
  key is absent: for a record with the required fields, \<^verbatim>\<open>c\<close> is the value stored at
  \<^verbatim>\<open>locality\<close> whenever that key is present, whatever the value (a null included), and
  the empty string when the key is absent.
\<close>

theorem project_locality_or_default:
  assumes "has_required stop"
  shows "\<exists>out. project stop = Inr out
     \<and> field out ''c'' = Some (case field stop ''locality'' of None \<Rightarrow> PyStr [] | Some v \<Rightarrow> v)"
proof -
  from project_has_required [OF assms] obtain out where
    "project stop = Inr out"
    "\<exists>i n l o'. out = PyDict [(ascii ''i'', i), (ascii ''n'', n), (ascii ''l'', l),
           (ascii ''o'', o'),
           (ascii ''c'', case field stop ''locality'' of None \<Rightarrow> PyStr [] | Some v \<Rightarrow> v)]"
    by blast
  then show ?thesis by (auto simp: ascii_def)
qed

theorem project_locality_or_default_witness:
  "has_required (PyDict [(ascii ''stop_id'', PyStr (ascii ''7'')),
       (ascii ''name'', PyStr (ascii ''Elm Ave'')),
       (ascii ''lat'', PyFloat ''41.0''), (ascii ''lon'', PyFloat ''-72.0'')])
   \<and> (\<exists>out. project (PyDict [(ascii ''stop_id'', PyStr (ascii ''7'')),
       (ascii ''name'', PyStr (ascii ''Elm Ave'')),
       (ascii ''lat'', PyFloat ''41.0''), (ascii ''lon'', PyFloat ''-72.0'')]) = Inr out
     \<and> field out ''c'' = Some (PyStr []))"
proof -
  let ?stop = "PyDict [(ascii ''stop_id'', PyStr (ascii ''7'')),
       (ascii ''name'', PyStr (ascii ''Elm Ave'')),
       (ascii ''lat'', PyFloat ''41.0''), (ascii ''lon'', PyFloat ''-72.0'')] :: string pyval"
  have h: "has_required ?stop"
    by (simp add: has_required_def required_keys_def ascii_def)
  from project_locality_or_default [OF h] have
    "\<exists>out. project ?stop = Inr out \<and> field out ''c'' = Some (PyStr [])"
    by (simp add: ascii_def)
  with h show ?thesis by blast
qed

text \<open>
  C3 as the specification words it fails for a null: the record below has the required
  fields and \<^verbatim>\<open>"locality": null\<close>, and its projection has \<^verbatim>\<open>None\<close> at \<^verbatim>\<open>c\<close>, not the
  empty string.
\<close>

theorem project_null_locality_is_kept:
  "field (PyDict [(ascii ''stop_id'', PyStr (ascii ''7'')),
       (ascii ''name'', PyStr (ascii ''Elm Ave'')),
       (ascii ''lat'', PyFloat ''41.0''), (ascii ''lon'', PyFloat ''-72.0''),
       (ascii ''locality'', PyNone)]) ''locality'' = Some PyNone
   \<and> project (PyDict [(ascii ''stop_id'', PyStr (ascii ''7'')),
       (ascii ''name'', PyStr (ascii ''Elm Ave'')),
       (ascii ''lat'', PyFloat ''41.0''), (ascii ''lon'', PyFloat ''-72.0''),
       (ascii ''locality'', PyNone)])
     = Inr (PyDict [(ascii ''i'', PyStr (ascii ''7'')), (ascii ''n'', PyStr (ascii ''Elm Ave'')),
         (ascii ''l'', PyFloat ''41.0''), (ascii ''o'', PyFloat ''-72.0''),
         (ascii ''c'', PyNone)])
   \<and> field (PyDict [(ascii ''i'', PyStr (ascii ''7'')), (ascii ''n'', PyStr (ascii ''Elm Ave'')),
         (ascii ''l'', PyFloat ''41.0''), (ascii ''o'', PyFloat ''-72.0''),
         (ascii ''c'', PyNone)]) ''c'' \<noteq> Some (PyStr [])"
  by (simp add: project_def ascii_def)

end
